theory Spec2Isabelle
  imports Complex_Main
begin

section \<open>Values exchanged with the client\<close>

text \<open>
  The handlers of \<^verbatim>\<open>app.py\<close> read the parsed JSON body of the request and build their
  answers with \<^verbatim>\<open>jsonify\<close>. A Python value that comes out of a JSON body is one of the
  following; \<open>JNull\<close> is Python's \<^verbatim>\<open>None\<close>, \<open>JFloat r\<close> is the float whose value is \<open>r\<close>,
  and \<open>JObj\<close> holds the items of a \<^verbatim>\<open>dict\<close>.
\<close>

datatype json =
    JNull
  | JBool bool
  | JInt int
  | JFloat real
  | JStr string
  | JList "json list"
  | JObj "(string \<times> json) list"

text \<open>Python's truth test, as used by \<^verbatim>\<open>if not body\<close>, \<^verbatim>\<open>if not name\<close>, \<^verbatim>\<open>if not age\<close>.\<close>

fun truthy :: "json \<Rightarrow> bool" where
  "truthy JNull = False"
| "truthy (JBool b) = b"
| "truthy (JInt i) = (i \<noteq> 0)"
| "truthy (JFloat r) = (r \<noteq> 0)"
| "truthy (JStr s) = (s \<noteq> [])"
| "truthy (JList xs) = (xs \<noteq> [])"
| "truthy (JObj items) = (items \<noteq> [])"

text \<open>\<^verbatim>\<open>d.get(key, default)\<close> on the items of a dict.\<close>

definition dict_get :: "(string \<times> json) list \<Rightarrow> string \<Rightarrow> json \<Rightarrow> json" where
  "dict_get items key dflt = (case map_of items key of Some v \<Rightarrow> v | None \<Rightarrow> dflt)"

text \<open>Whether a body is a dict that carries the key.\<close>

definition has_key :: "json \<Rightarrow> string \<Rightarrow> bool" where
  "has_key body key = (case body of JObj items \<Rightarrow> key \<in> fst ` set items | _ \<Rightarrow> False)"

section \<open>Errors\<close>

text \<open>
  The failures of the authorization layer, as section 4.1 of the specification lists them
  (the module \<^verbatim>\<open>auth.py\<close> itself is not among the sources).
\<close>

datatype auth_failure =
    AuthHeaderMissing
  | AuthHeaderMalformed
  | TokenExpired
  | TokenInvalidClaims
  | TokenInvalidSignature
  | TokenParsingError
  | PermissionsClaimMissing
  | PermissionNotFound

text \<open>
  Every way a request can leave a handler other than by returning: \<^verbatim>\<open>abort(code, description)\<close>
  raises an HTTP exception carrying the description; the authorization layer raises
  \<^verbatim>\<open>AuthError\<close>; calling a function with the wrong number of arguments raises \<^verbatim>\<open>TypeError\<close>;
  \<^verbatim>\<open>.get\<close> on a value that is not a dict raises \<^verbatim>\<open>AttributeError\<close>; \<^verbatim>\<open>one_or_none()\<close> raises
  \<^verbatim>\<open>MultipleResultsFound\<close> when the query yields more than one row; a commit whose statement
  the store refuses raises one of SQLAlchemy's \<^verbatim>\<open>DBAPIError\<close> exceptions.
\<close>

datatype error =
    HTTPException int json
  | AuthError auth_failure
  | TypeError
  | AttributeError
  | MultipleResultsFound
  | DBAPIError

definition message :: "string \<Rightarrow> json" where
  "message text = JObj [(''message'', JStr text)]"

definition abort :: "int \<Rightarrow> json \<Rightarrow> error + 'a" where
  "abort code description = Inl (HTTPException code description)"

section \<open>The data store (models.py)\<close>

text \<open>
  Rows are modelled as the Python objects the handlers hold: an attribute keeps whatever
  value was assigned to it. The storage engine behind the session is not part of the
  sources.
\<close>

record Person =
  Person_id :: int
  Person_name :: json
  Person_gender :: json
  Person_age :: json

record Game =
  Game_id :: int
  Game_title :: json
  Game_release_date :: json

text \<open>
  The two tables in storage order, and the sequences the primary keys are drawn from.
  The association table \<^verbatim>\<open>Performance\<close> is read and written by no handler and is left out.
\<close>

record db =
  persons :: "Person list"
  games :: "Game list"
  persons_id_seq :: int
  games_id_seq :: int

text \<open>
  The column types \<^verbatim>\<open>models.py\<close> declares: \<^verbatim>\<open>name\<close>, \<^verbatim>\<open>gender\<close> and \<^verbatim>\<open>title\<close> are
  \<^verbatim>\<open>Column(String)\<close>, \<^verbatim>\<open>age\<close> is \<^verbatim>\<open>Column(Integer)\<close>, \<^verbatim>\<open>release_date\<close> is \<^verbatim>\<open>Column(Date)\<close>.
\<close>

datatype column_type = Integer | String | Date

text \<open>
  \<^verbatim>\<open>Person(name, gender, age).insert()\<close>: add and commit. The INSERT statement hands every
  column of the new object to the store, which converts each value to the declared type
  of its column or refuses the statement; then the commit raises and no row is stored.
  What the store does with a value is its own business, so the conversion \<open>to_column\<close> is
  a parameter: \<open>to_column t v\<close> is the value kept for \<open>v\<close> in a column of type \<open>t\<close>, and
  \<open>None\<close> when the store refuses it. On success the store assigns the id.
\<close>

definition Person_insert ::
  "(column_type \<Rightarrow> json \<Rightarrow> json option) \<Rightarrow> json \<Rightarrow> json \<Rightarrow> json \<Rightarrow> db
   \<Rightarrow> error + int \<times> db" where
  "Person_insert to_column name gender age d =
     (case (to_column String name, to_column String gender, to_column Integer age) of
        (Some stored_name, Some stored_gender, Some stored_age) \<Rightarrow>
          (let new_id = persons_id_seq d;
               row = \<lparr>Person_id = new_id, Person_name = stored_name,
                      Person_gender = stored_gender, Person_age = stored_age\<rparr>
           in Inr (new_id, d\<lparr>persons := persons d @ [row], persons_id_seq := new_id + 1\<rparr>))
      | _ \<Rightarrow> Inl DBAPIError)"

definition Game_insert ::
  "(column_type \<Rightarrow> json \<Rightarrow> json option) \<Rightarrow> json \<Rightarrow> json \<Rightarrow> db \<Rightarrow> error + int \<times> db" where
  "Game_insert to_column title release_date d =
     (case (to_column String title, to_column Date release_date) of
        (Some stored_title, Some stored_date) \<Rightarrow>
          (let new_id = games_id_seq d;
               row = \<lparr>Game_id = new_id, Game_title = stored_title,
                      Game_release_date = stored_date\<rparr>
           in Inr (new_id, d\<lparr>games := games d @ [row], games_id_seq := new_id + 1\<rparr>))
      | _ \<Rightarrow> Inl DBAPIError)"

text \<open>\<^verbatim>\<open>update()\<close>: commit the changed attributes of the row with this primary key.\<close>

definition Person_update :: "Person \<Rightarrow> db \<Rightarrow> db" where
  "Person_update row d =
     d\<lparr>persons := map (\<lambda>p. if Person_id p = Person_id row then row else p) (persons d)\<rparr>"

definition Game_update :: "Game \<Rightarrow> db \<Rightarrow> db" where
  "Game_update row d =
     d\<lparr>games := map (\<lambda>g. if Game_id g = Game_id row then row else g) (games d)\<rparr>"

text \<open>\<^verbatim>\<open>delete()\<close>: remove the row with this primary key and commit.\<close>

definition Person_delete :: "Person \<Rightarrow> db \<Rightarrow> db" where
  "Person_delete row d = d\<lparr>persons := filter (\<lambda>p. Person_id p \<noteq> Person_id row) (persons d)\<rparr>"

definition Game_delete :: "Game \<Rightarrow> db \<Rightarrow> db" where
  "Game_delete row d = d\<lparr>games := filter (\<lambda>g. Game_id g \<noteq> Game_id row) (games d)\<rparr>"

text \<open>\<^verbatim>\<open>format()\<close> of the two models.\<close>

definition Person_format :: "Person \<Rightarrow> json" where
  "Person_format p =
     JObj [(''id'', JInt (Person_id p)), (''name'', Person_name p),
           (''gender'', Person_gender p), (''age'', Person_age p)]"

definition Game_format :: "Game \<Rightarrow> json" where
  "Game_format g =
     JObj [(''id'', JInt (Game_id g)), (''title'', Game_title g),
           (''release_date'', Game_release_date g)]"

text \<open>\<^verbatim>\<open>one_or_none()\<close> on the rows a query yields.\<close>

definition one_or_none :: "'a list \<Rightarrow> error + 'a option" where
  "one_or_none rows =
     (case rows of [] \<Rightarrow> Inr None | [r] \<Rightarrow> Inr (Some r) | _ \<Rightarrow> Inl MultipleResultsFound)"

text \<open>
  \<^verbatim>\<open>Person.query.filter(Person.id == person_id).one_or_none()\<close>. The path segment is a
  string and the column an integer; how the store compares the two is its own business,
  so the comparison \<open>id_eq\<close> is a parameter.
\<close>

definition find_person :: "(int \<Rightarrow> string \<Rightarrow> bool) \<Rightarrow> string \<Rightarrow> db \<Rightarrow> error + Person option" where
  "find_person id_eq person_id d =
     one_or_none (filter (\<lambda>p. id_eq (Person_id p) person_id) (persons d))"

definition find_game :: "(int \<Rightarrow> string \<Rightarrow> bool) \<Rightarrow> string \<Rightarrow> db \<Rightarrow> error + Game option" where
  "find_game id_eq game_id d =
     one_or_none (filter (\<lambda>g. id_eq (Game_id g) game_id) (games d))"

text \<open>
  \<^verbatim>\<open>db_init_records()\<close>: one person and one game in a fresh store (\<open>today\<close> is the value of
  \<^verbatim>\<open>date.today()\<close>). The result is the store the call leaves behind; an insert the store
  refuses ends the call there.
\<close>

definition db_init_records :: "(column_type \<Rightarrow> json \<Rightarrow> json option) \<Rightarrow> json \<Rightarrow> db" where
  "db_init_records to_column today =
     (let empty = \<lparr>persons = [], games = [], persons_id_seq = 1, games_id_seq = 1\<rparr>
      in case Person_insert to_column (JStr ''Matthew'') (JStr ''Male'') (JInt 25) empty of
           Inl e \<Rightarrow> empty
         | Inr (person_id, d1) \<Rightarrow>
             (case Game_insert to_column (JStr ''Matthew first Game'') today d1 of
                Inl e \<Rightarrow> d1
              | Inr (game_id, d2) \<Rightarrow> d2))"

text \<open>
  One store for the evaluations below. It keeps \<^verbatim>\<open>None\<close> in every column, a string in a
  \<^verbatim>\<open>String\<close> column, an integer of the 32-bit range in an \<^verbatim>\<open>Integer\<close> column (the range of
  PostgreSQL's \<^verbatim>\<open>integer\<close>) and a date, written as a string, in a \<^verbatim>\<open>Date\<close> column; it refuses
  every other value.
\<close>

definition typed_columns :: "column_type \<Rightarrow> json \<Rightarrow> json option" where
  "typed_columns t v =
     (case v of
        JNull \<Rightarrow> Some JNull
      | JStr s \<Rightarrow> (if t = Integer then None else Some (JStr s))
      | JInt i \<Rightarrow>
          (if t = Integer \<and> - 2147483648 \<le> i \<and> i \<le> 2147483647 then Some (JInt i) else None)
      | _ \<Rightarrow> None)"

section \<open>Requests\<close>

text \<open>
  What a handler reads of the request: the \<^verbatim>\<open>Authorization\<close> header, the value of
  \<^verbatim>\<open>request.args.get('page', type=int)\<close> (\<open>None\<close> when the parameter is missing or is not an
  integer), the result of \<^verbatim>\<open>request.get_json()\<close>, and the variables of the URL rule.
\<close>

record request =
  authorization :: "string option"
  args_page :: "int option"
  get_json :: json
  view_args :: "string list"

type_synonym result = "(error + json) \<times> db"

section \<open>Custom functions of app.py\<close>

text \<open>Python's \<^verbatim>\<open>xs[start:end]\<close> on a list, negative indices included.\<close>

definition py_slice :: "'a list \<Rightarrow> int \<Rightarrow> int \<Rightarrow> 'a list" where
  "py_slice xs start end =
     (let n = int (length xs);
          s = (if start < 0 then max (n + start) 0 else min start n);
          e = (if end < 0 then max (n + end) 0 else min end n)
      in take (nat (e - s)) (drop (nat s) xs))"

text \<open>
  \<^verbatim>\<open>paginate_results(request, selection)\<close>. The constant \<^verbatim>\<open>ROWS_PER_PAGE\<close> comes from a
  configuration module that is not among the sources and is the first parameter;
  \<open>format\<close> is the \<^verbatim>\<open>format\<close> method of the objects selected.
\<close>

definition paginate_results :: "int \<Rightarrow> request \<Rightarrow> ('a \<Rightarrow> json) \<Rightarrow> 'a list \<Rightarrow> json list" where
  "paginate_results ROWS_PER_PAGE req format selection =
     (let page = (case args_page req of Some p \<Rightarrow> p | None \<Rightarrow> 1);
          start = (page - 1) * ROWS_PER_PAGE;
          end = start + ROWS_PER_PAGE;
          objects_formatted = map format selection
      in py_slice objects_formatted start end)"

text \<open>
  \<^verbatim>\<open>get_error_message(error, default_text)\<close>: the \<^verbatim>\<open>message\<close> entry of the description when
  there is one, the default text when the lookup raises.
\<close>

definition get_error_message :: "json \<Rightarrow> string \<Rightarrow> json" where
  "get_error_message description default_text =
     (case description of
        JObj items \<Rightarrow> (case map_of items ''message'' of Some m \<Rightarrow> m | None \<Rightarrow> JStr default_text)
      | _ \<Rightarrow> JStr default_text)"

section \<open>Endpoints of app.py\<close>

text \<open>The decoded token: its \<^verbatim>\<open>permissions\<close> claim, when it has one.\<close>

record payload =
  permissions :: "string list option"

subsection \<open>/persons\<close>

text \<open>\<^verbatim>\<open>def get_persons()\<close>: declared without parameters.\<close>

definition get_persons :: "int \<Rightarrow> request \<Rightarrow> db \<Rightarrow> result" where
  "get_persons ROWS_PER_PAGE req d =
     (let selection = persons d;
          persons_paginated = paginate_results ROWS_PER_PAGE req Person_format selection
      in if length persons_paginated = 0
         then (abort 404 (message ''no persons found in database.''), d)
         else (Inr (JObj [(''success'', JBool True), (''persons'', JList persons_paginated)]), d))"

text \<open>\<^verbatim>\<open>def insert_persons()\<close>: declared without parameters.\<close>

definition insert_persons ::
  "(column_type \<Rightarrow> json \<Rightarrow> json option) \<Rightarrow> request \<Rightarrow> db \<Rightarrow> result" where
  "insert_persons to_column req d =
     (let body = get_json req in
      if \<not> truthy body
      then (abort 400 (message ''request does not contain a valid JSON body.''), d)
      else (case body of
        JObj items \<Rightarrow>
          (let name = dict_get items ''name'' JNull;
               age = dict_get items ''age'' JNull;
               gender = dict_get items ''gender'' (JStr ''Other'')
           in if \<not> truthy name then (abort 422 (message ''no name provided.''), d)
              else if \<not> truthy age then (abort 422 (message ''no age provided.''), d)
              else (case Person_insert to_column name gender age d of
                      Inl e \<Rightarrow> (Inl e, d)
                    | Inr (new_id, d') \<Rightarrow>
                        (Inr (JObj [(''success'', JBool True), (''created'', JInt new_id)]), d')))
      | _ \<Rightarrow> (Inl AttributeError, d)))"

text \<open>\<^verbatim>\<open>def edit_persons(payload, person_id)\<close>.\<close>

definition edit_persons ::
  "(int \<Rightarrow> string \<Rightarrow> bool) \<Rightarrow> payload \<Rightarrow> string \<Rightarrow> request \<Rightarrow> db \<Rightarrow> result" where
  "edit_persons id_eq pl person_id req d =
     (let body = get_json req in
      if person_id = []
      then (abort 400 (message ''please append an person id to the request url.''), d)
      else if \<not> truthy body
      then (abort 400 (message ''request does not contain a valid JSON body.''), d)
      else (case find_person id_eq person_id d of
        Inl e \<Rightarrow> (Inl e, d)
      | Inr None \<Rightarrow>
          (abort 404 (message (''Person with id '' @ person_id @ '' not found in database.'')), d)
      | Inr (Some person_to_update) \<Rightarrow>
          (case body of
             JObj items \<Rightarrow>
               (let name = dict_get items ''name'' (Person_name person_to_update);
                    age = dict_get items ''age'' (Person_age person_to_update);
                    gender = dict_get items ''gender'' (Person_gender person_to_update);
                    updated = person_to_update
                      \<lparr>Person_name := name, Person_age := age, Person_gender := gender\<rparr>
                in (Inr (JObj [(''success'', JBool True),
                               (''updated'', JInt (Person_id updated)),
                               (''person'', JList [Person_format updated])]),
                    Person_update updated d))
           | _ \<Rightarrow> (Inl AttributeError, d))))"

text \<open>\<^verbatim>\<open>def delete_persons(payload, person_id)\<close>: the request is not read.\<close>

definition delete_persons ::
  "(int \<Rightarrow> string \<Rightarrow> bool) \<Rightarrow> payload \<Rightarrow> string \<Rightarrow> request \<Rightarrow> db \<Rightarrow> result" where
  "delete_persons id_eq pl person_id req d =
     (if person_id = []
      then (abort 400 (message ''please append an person id to the request url.''), d)
      else (case find_person id_eq person_id d of
        Inl e \<Rightarrow> (Inl e, d)
      | Inr None \<Rightarrow>
          (abort 404 (message (''Person with id '' @ person_id @ '' not found in database.'')), d)
      | Inr (Some person_to_delete) \<Rightarrow>
          (Inr (JObj [(''success'', JBool True), (''deleted'', JStr person_id)]),
           Person_delete person_to_delete d)))"

subsection \<open>/games\<close>

text \<open>\<^verbatim>\<open>def get_games(payload)\<close>.\<close>

definition get_games :: "int \<Rightarrow> payload \<Rightarrow> request \<Rightarrow> db \<Rightarrow> result" where
  "get_games ROWS_PER_PAGE pl req d =
     (let selection = games d;
          games_paginated = paginate_results ROWS_PER_PAGE req Game_format selection
      in if length games_paginated = 0
         then (abort 404 (message ''no games found in database.''), d)
         else (Inr (JObj [(''success'', JBool True), (''games'', JList games_paginated)]), d))"

text \<open>\<^verbatim>\<open>def insert_games(payload)\<close>.\<close>

definition insert_games ::
  "(column_type \<Rightarrow> json \<Rightarrow> json option) \<Rightarrow> payload \<Rightarrow> request \<Rightarrow> db \<Rightarrow> result" where
  "insert_games to_column pl req d =
     (let body = get_json req in
      if \<not> truthy body
      then (abort 400 (message ''request does not contain a valid JSON body.''), d)
      else (case body of
        JObj items \<Rightarrow>
          (let title = dict_get items ''title'' JNull;
               release_date = dict_get items ''release_date'' JNull
           in if \<not> truthy title then (abort 422 (message ''no title provided.''), d)
              else if \<not> truthy release_date
              then (abort 422 (message ''no \"release_date\" provided.''), d)
              else (case Game_insert to_column title release_date d of
                      Inl e \<Rightarrow> (Inl e, d)
                    | Inr (new_id, d') \<Rightarrow>
                        (Inr (JObj [(''success'', JBool True), (''created'', JInt new_id)]), d')))
      | _ \<Rightarrow> (Inl AttributeError, d)))"

text \<open>\<^verbatim>\<open>def edit_games(payload, game_id)\<close>.\<close>

definition edit_games ::
  "(int \<Rightarrow> string \<Rightarrow> bool) \<Rightarrow> payload \<Rightarrow> string \<Rightarrow> request \<Rightarrow> db \<Rightarrow> result" where
  "edit_games id_eq pl game_id req d =
     (let body = get_json req in
      if game_id = []
      then (abort 400 (message ''please append an game id to the request url.''), d)
      else if \<not> truthy body
      then (abort 400 (message ''request does not contain a valid JSON body.''), d)
      else (case find_game id_eq game_id d of
        Inl e \<Rightarrow> (Inl e, d)
      | Inr None \<Rightarrow>
          (abort 404 (message (''Game with id '' @ game_id @ '' not found in database.'')), d)
      | Inr (Some game_to_update) \<Rightarrow>
          (case body of
             JObj items \<Rightarrow>
               (let title = dict_get items ''title'' (Game_title game_to_update);
                    release_date =
                      dict_get items ''release_date'' (Game_release_date game_to_update);
                    updated = game_to_update
                      \<lparr>Game_title := title, Game_release_date := release_date\<rparr>
                in (Inr (JObj [(''success'', JBool True),
                               (''edited'', JInt (Game_id updated)),
                               (''game'', JList [Game_format updated])]),
                    Game_update updated d))
           | _ \<Rightarrow> (Inl AttributeError, d))))"

text \<open>\<^verbatim>\<open>def delete_games(payload, game_id)\<close>: the request is not read.\<close>

definition delete_games ::
  "(int \<Rightarrow> string \<Rightarrow> bool) \<Rightarrow> payload \<Rightarrow> string \<Rightarrow> request \<Rightarrow> db \<Rightarrow> result" where
  "delete_games id_eq pl game_id req d =
     (if game_id = []
      then (abort 400 (message ''please append an game id to the request url.''), d)
      else (case find_game id_eq game_id d of
        Inl e \<Rightarrow> (Inl e, d)
      | Inr None \<Rightarrow>
          (abort 404 (message (''Game with id '' @ game_id @ '' not found in database.'')), d)
      | Inr (Some game_to_delete) \<Rightarrow>
          (Inr (JObj [(''success'', JBool True), (''deleted'', JStr game_id)]),
           Game_delete game_to_delete d)))"

subsection \<open>Error handlers\<close>

text \<open>
  The handlers registered for 422, 400 and 404 take the description of the HTTP exception;
  \<^verbatim>\<open>authentification_failed\<close> takes the two attributes of the \<^verbatim>\<open>AuthError\<close> it reads.
  Each returns the body of the answer and its status.
\<close>

definition unprocessable :: "json \<Rightarrow> json \<times> int" where
  "unprocessable description =
     (JObj [(''success'', JBool False), (''error'', JInt 422),
            (''message'', get_error_message description ''unprocessable'')], 422)"

definition bad_request :: "json \<Rightarrow> json \<times> int" where
  "bad_request description =
     (JObj [(''success'', JBool False), (''error'', JInt 400),
            (''message'', get_error_message description ''bad request'')], 400)"

definition ressource_not_found :: "json \<Rightarrow> json \<times> int" where
  "ressource_not_found description =
     (JObj [(''success'', JBool False), (''error'', JInt 404),
            (''message'', get_error_message description ''resource not found'')], 404)"

definition authentification_failed :: "int \<Rightarrow> string \<Rightarrow> json \<times> int" where
  "authentification_failed status_code description =
     (JObj [(''success'', JBool False), (''error'', JInt status_code),
            (''message'', JStr description)], status_code)"

section \<open>The authorization layer and the routes\<close>

text \<open>
  A view function as Python sees it: a function of no parameter, of the payload, or of the
  payload and one URL variable.
\<close>

datatype view =
    View0 "request \<Rightarrow> db \<Rightarrow> result"
  | View1 "payload \<Rightarrow> request \<Rightarrow> db \<Rightarrow> result"
  | View2 "payload \<Rightarrow> string \<Rightarrow> request \<Rightarrow> db \<Rightarrow> result"

text \<open>
  The call \<^verbatim>\<open>f(payload, **view_args)\<close>: Python binds the arguments to the parameters the
  function declares and raises \<^verbatim>\<open>TypeError\<close> when their numbers differ. The names of the
  URL variables are those of the parameters in every route, so only the number counts.
\<close>

fun call_view :: "view \<Rightarrow> payload \<Rightarrow> string list \<Rightarrow> request \<Rightarrow> db \<Rightarrow> result" where
  "call_view (View1 f) pl [] req d = f pl req d"
| "call_view (View2 f) pl [v] req d = f pl v req d"
| "call_view f pl vs req d = (Inl TypeError, d)"

text \<open>
  Modelled from the spec: \<^verbatim>\<open>auth.py\<close> (\<^verbatim>\<open>requires_auth\<close>, \<^verbatim>\<open>AuthError\<close>) is imported by
  \<^verbatim>\<open>app.py\<close> and is not among the sources. Section 4.1: the header must be present, start
  with \<^verbatim>\<open>Bearer\<close> and have exactly two space-separated parts; the token is verified and
  decoded (by \<open>verify_decode_jwt\<close>, which stands for the identity provider's check and is a
  parameter); the payload must carry a permissions claim that contains the required
  permission.
\<close>

fun split_spaces :: "string \<Rightarrow> string list" where
  "split_spaces [] = [[]]"
| "split_spaces (c # cs) =
     (if c = CHR '' '' then [] # split_spaces cs
      else (case split_spaces cs of p # ps \<Rightarrow> (c # p) # ps | [] \<Rightarrow> [[c]]))"

definition get_token_auth_header :: "request \<Rightarrow> auth_failure + string" where
  "get_token_auth_header req =
     (case authorization req of
        None \<Rightarrow> Inl AuthHeaderMissing
      | Some header \<Rightarrow>
          (case split_spaces header of
             [scheme, token] \<Rightarrow>
               (if scheme = ''Bearer'' \<and> token \<noteq> [] then Inr token else Inl AuthHeaderMalformed)
           | _ \<Rightarrow> Inl AuthHeaderMalformed))"

definition check_permissions :: "string \<Rightarrow> payload \<Rightarrow> auth_failure + payload" where
  "check_permissions permission pl =
     (case permissions pl of
        None \<Rightarrow> Inl PermissionsClaimMissing
      | Some claimed \<Rightarrow> if permission \<in> set claimed then Inr pl else Inl PermissionNotFound)"

definition authorization_gate ::
  "(string \<Rightarrow> auth_failure + payload) \<Rightarrow> string \<Rightarrow> request \<Rightarrow> auth_failure + payload" where
  "authorization_gate verify_decode_jwt permission req =
     (case get_token_auth_header req of
        Inl e \<Rightarrow> Inl e
      | Inr token \<Rightarrow>
          (case verify_decode_jwt token of
             Inl e \<Rightarrow> Inl e
           | Inr pl \<Rightarrow> check_permissions permission pl))"

text \<open>
  Modelled from the spec: the status of each failure (section 4.1: 401, except 400 for a
  missing permissions claim and 403 for a missing permission).
\<close>

fun status_code :: "auth_failure \<Rightarrow> int" where
  "status_code PermissionsClaimMissing = 400"
| "status_code PermissionNotFound = 403"
| "status_code _ = 401"

text \<open>
  Modelled from the spec: the decorator \<^verbatim>\<open>requires_auth(permission)\<close>. Section 4.1: on
  success the decoded payload is passed through to the wrapped handler, and the handler
  runs only after the gate has passed.
\<close>

definition requires_auth ::
  "(string \<Rightarrow> auth_failure + payload) \<Rightarrow> string \<Rightarrow> view \<Rightarrow> request \<Rightarrow> db \<Rightarrow> result" where
  "requires_auth verify_decode_jwt permission f req d =
     (case authorization_gate verify_decode_jwt permission req of
        Inl e \<Rightarrow> (Inl (AuthError e), d)
      | Inr pl \<Rightarrow> call_view f pl (view_args req) req d)"

text \<open>The eight routes \<^verbatim>\<open>create_app\<close> registers, each with its decorator.\<close>

datatype endpoint =
    GET_persons | POST_persons | PATCH_persons | DELETE_persons
  | GET_games | POST_games | PATCH_games | DELETE_games

fun required_permission :: "endpoint \<Rightarrow> string" where
  "required_permission GET_persons = ''read:persons''"
| "required_permission POST_persons = ''create:persons''"
| "required_permission PATCH_persons = ''edit:persons''"
| "required_permission DELETE_persons = ''delete:persons''"
| "required_permission GET_games = ''read:games''"
| "required_permission POST_games = ''create:games''"
| "required_permission PATCH_games = ''edit:games''"
| "required_permission DELETE_games = ''delete:games''"

fun view_function ::
  "int \<Rightarrow> (int \<Rightarrow> string \<Rightarrow> bool) \<Rightarrow> (column_type \<Rightarrow> json \<Rightarrow> json option) \<Rightarrow>
   endpoint \<Rightarrow> view" where
  "view_function ROWS_PER_PAGE id_eq to_column GET_persons = View0 (get_persons ROWS_PER_PAGE)"
| "view_function ROWS_PER_PAGE id_eq to_column POST_persons = View0 (insert_persons to_column)"
| "view_function ROWS_PER_PAGE id_eq to_column PATCH_persons = View2 (edit_persons id_eq)"
| "view_function ROWS_PER_PAGE id_eq to_column DELETE_persons = View2 (delete_persons id_eq)"
| "view_function ROWS_PER_PAGE id_eq to_column GET_games = View1 (get_games ROWS_PER_PAGE)"
| "view_function ROWS_PER_PAGE id_eq to_column POST_games = View1 (insert_games to_column)"
| "view_function ROWS_PER_PAGE id_eq to_column PATCH_games = View2 (edit_games id_eq)"
| "view_function ROWS_PER_PAGE id_eq to_column DELETE_games = View2 (delete_games id_eq)"

definition dispatch_request ::
  "int \<Rightarrow> (int \<Rightarrow> string \<Rightarrow> bool) \<Rightarrow> (column_type \<Rightarrow> json \<Rightarrow> json option) \<Rightarrow>
   (string \<Rightarrow> auth_failure + payload) \<Rightarrow> endpoint \<Rightarrow> request \<Rightarrow> db \<Rightarrow> result" where
  "dispatch_request ROWS_PER_PAGE id_eq to_column verify_decode_jwt ep req d =
     requires_auth verify_decode_jwt (required_permission ep)
       (view_function ROWS_PER_PAGE id_eq to_column ep) req d"

section \<open>Auxiliary facts\<close>

lemma dict_get_absent: "key \<notin> fst ` set items \<Longrightarrow> dict_get items key dflt = dflt"
  by (simp add: dict_get_def map_of_eq_None_iff[THEN iffD2])

lemma one_or_none_Some: "one_or_none rows = Inr (Some r) \<longleftrightarrow> rows = [r]"
  by (auto simp: one_or_none_def split: list.splits)

lemma one_or_none_None: "one_or_none rows = Inr None \<longleftrightarrow> rows = []"
  by (auto simp: one_or_none_def split: list.splits)

lemma db_init_records_rows:
  "db_init_records typed_columns (JStr today) =
     \<lparr>persons = [\<lparr>Person_id = 1, Person_name = JStr ''Matthew'', Person_gender = JStr ''Male'',
                  Person_age = JInt 25\<rparr>],
      games = [\<lparr>Game_id = 1, Game_title = JStr ''Matthew first Game'',
                Game_release_date = JStr today\<rparr>],
      persons_id_seq = 2, games_id_seq = 2\<rparr>"
  by (simp add: db_init_records_def Person_insert_def Game_insert_def typed_columns_def Let_def)

text \<open>
  Once the gate has passed, a route whose handler declares the payload (and, with a URL
  variable, the variable) is the handler call.
\<close>

lemma games_routes_reach_handler:
  assumes "authorization_gate verify_decode_jwt (required_permission ep) req = Inr pl"
    and "view_args req = []"
  shows "ep = GET_games \<Longrightarrow>
           dispatch_request N id_eq to_column verify_decode_jwt ep req d = get_games N pl req d"
    and "ep = POST_games \<Longrightarrow>
           dispatch_request N id_eq to_column verify_decode_jwt ep req d
             = insert_games to_column pl req d"
  using assms by (simp_all add: dispatch_request_def requires_auth_def)

text \<open>The store \<open>typed_columns\<close> refuses an age beyond the 32-bit range: nothing is stored.\<close>

lemma insert_persons_refused_by_store:
  "insert_persons typed_columns
     \<lparr>authorization = None, args_page = None,
      get_json = JObj [(''name'', JStr ''Crisso''), (''age'', JInt 2147483648)], view_args = []\<rparr> d
   = (Inl DBAPIError, d)"
  by (simp add: insert_persons_def Person_insert_def typed_columns_def dict_get_def Let_def)

lemma py_slice_Nil: "py_slice [] a b = []"
  by (simp add: py_slice_def Let_def)

text \<open>With a start and a length that are not negative, the slice is a take of a drop.\<close>

lemma py_slice_nonneg:
  assumes "0 \<le> a" "0 \<le> n"
  shows "py_slice xs a (a + n) = take (nat n) (drop (nat a) xs)"
proof (cases "a \<le> int (length xs)")
  case inside: True
  show ?thesis
  proof (cases "a + n \<le> int (length xs)")
    case True
    have "nat (a + n - a) = nat n" by simp
    with True inside assms show ?thesis
      by (simp add: py_slice_def Let_def min_def)
  next
    case False
    with inside assms have "length (drop (nat a) xs) \<le> nat n" by simp
    with False inside assms show ?thesis
      by (simp add: py_slice_def Let_def min_def)
  qed
next
  case False
  with assms show ?thesis
    by (auto simp: py_slice_def Let_def min_def)
qed

lemma paginate_beyond_range:
  assumes "0 \<le> N" and "1 \<le> (case args_page req of Some q \<Rightarrow> q | None \<Rightarrow> 1)"
    and "int (length C) \<le> ((case args_page req of Some q \<Rightarrow> q | None \<Rightarrow> 1) - 1) * N"
  shows "paginate_results N req fmt C = []"
proof -
  let ?p = "case args_page req of Some q \<Rightarrow> q | None \<Rightarrow> 1"
  have s: "0 \<le> (?p - 1) * N" using assms by simp
  have "paginate_results N req fmt C = py_slice (map fmt C) ((?p - 1) * N) ((?p - 1) * N + N)"
    by (simp add: paginate_results_def Let_def)
  also have "\<dots> = take (nat N) (drop (nat ((?p - 1) * N)) (map fmt C))"
    by (rule py_slice_nonneg[OF s assms(1)])
  also have "\<dots> = []" using assms(3) s by simp
  finally show ?thesis .
qed

text \<open>A row function that keeps what the filter looks at commutes with the filter.\<close>

lemma filter_map_same_key:
  assumes "\<And>x. x \<in> set rows \<Longrightarrow> P (f x) = P x"
  shows "filter P (map f rows) = map f (filter P rows)"
  using assms by (induction rows) auto

lemma find_person_after_update:
  assumes "find_person id_eq person_id d = Inr (Some r)" and "Person_id r' = Person_id r"
  shows "find_person id_eq person_id (Person_update r' d) = Inr (Some r')"
proof -
  let ?P = "\<lambda>p. id_eq (Person_id p) person_id"
  let ?f = "\<lambda>p. if Person_id p = Person_id r' then r' else p"
  from assms(1) have rows: "filter ?P (persons d) = [r]"
    by (simp add: find_person_def one_or_none_Some)
  have "filter ?P (map ?f (persons d)) = map ?f (filter ?P (persons d))"
    by (rule filter_map_same_key) auto
  with rows assms(2) show ?thesis
    by (simp add: find_person_def Person_update_def one_or_none_Some)
qed

lemma find_game_after_update:
  assumes "find_game id_eq game_id d = Inr (Some r)" and "Game_id r' = Game_id r"
  shows "find_game id_eq game_id (Game_update r' d) = Inr (Some r')"
proof -
  let ?P = "\<lambda>g. id_eq (Game_id g) game_id"
  let ?f = "\<lambda>g. if Game_id g = Game_id r' then r' else g"
  from assms(1) have rows: "filter ?P (games d) = [r]"
    by (simp add: find_game_def one_or_none_Some)
  have "filter ?P (map ?f (games d)) = map ?f (filter ?P (games d))"
    by (rule filter_map_same_key) auto
  with rows assms(2) show ?thesis
    by (simp add: find_game_def Game_update_def one_or_none_Some)
qed

lemma find_person_after_delete:
  assumes "find_person id_eq person_id d = Inr (Some r)"
  shows "find_person id_eq person_id (Person_delete r d) = Inr None"
proof -
  let ?P = "\<lambda>p. id_eq (Person_id p) person_id"
  from assms have rows: "filter ?P (persons d) = [r]"
    by (simp add: find_person_def one_or_none_Some)
  have "p = r" if "p \<in> set (persons d)" and "?P p" for p
  proof -
    from that have "p \<in> set (filter ?P (persons d))" by simp
    with rows show ?thesis by simp
  qed
  then have "filter ?P (filter (\<lambda>p. Person_id p \<noteq> Person_id r) (persons d)) = []"
    by (auto simp: filter_empty_conv)
  then show ?thesis
    by (simp add: find_person_def Person_delete_def one_or_none_None)
qed

lemma find_game_after_delete:
  assumes "find_game id_eq game_id d = Inr (Some r)"
  shows "find_game id_eq game_id (Game_delete r d) = Inr None"
proof -
  let ?P = "\<lambda>g. id_eq (Game_id g) game_id"
  from assms have rows: "filter ?P (games d) = [r]"
    by (simp add: find_game_def one_or_none_Some)
  have "g = r" if "g \<in> set (games d)" and "?P g" for g
  proof -
    from that have "g \<in> set (filter ?P (games d))" by simp
    with rows show ?thesis by simp
  qed
  then have "filter ?P (filter (\<lambda>g. Game_id g \<noteq> Game_id r) (games d)) = []"
    by (auto simp: filter_empty_conv)
  then show ?thesis
    by (simp add: find_game_def Game_delete_def one_or_none_None)
qed

text \<open>
  A PATCH on an existing person leaves a row under the same id, and every field the body
  does not carry is as before, whether the request succeeds or is refused.
\<close>

lemma edit_persons_keeps_omitted:
  assumes found: "find_person id_eq person_id d = Inr (Some r)"
  shows "\<exists>r'. find_person id_eq person_id (snd (edit_persons id_eq pl person_id req d))
                 = Inr (Some r')
           \<and> Person_id r' = Person_id r
           \<and> (\<not> has_key (get_json req) ''name'' \<longrightarrow> Person_name r' = Person_name r)
           \<and> (\<not> has_key (get_json req) ''age'' \<longrightarrow> Person_age r' = Person_age r)
           \<and> (\<not> has_key (get_json req) ''gender'' \<longrightarrow> Person_gender r' = Person_gender r)"
proof (cases "person_id \<noteq> [] \<and> truthy (get_json req) \<and> (\<exists>items. get_json req = JObj items)")
  case True
  then obtain items where body: "get_json req = JObj items" by blast
  let ?r' = "r\<lparr>Person_name := dict_get items ''name'' (Person_name r),
               Person_age := dict_get items ''age'' (Person_age r),
               Person_gender := dict_get items ''gender'' (Person_gender r)\<rparr>"
  from True body found
  have "snd (edit_persons id_eq pl person_id req d) = Person_update ?r' d"
    by (simp add: edit_persons_def Let_def)
  moreover have "find_person id_eq person_id (Person_update ?r' d) = Inr (Some ?r')"
    by (rule find_person_after_update[OF found]) simp
  ultimately show ?thesis
    by (auto simp: body has_key_def dict_get_absent)
next
  case False
  with found have "snd (edit_persons id_eq pl person_id req d) = d"
    by (cases "get_json req") (auto simp: edit_persons_def Let_def abort_def)
  with found show ?thesis by auto
qed

lemma edit_games_keeps_omitted:
  assumes found: "find_game id_eq game_id d = Inr (Some r)"
  shows "\<exists>r'. find_game id_eq game_id (snd (edit_games id_eq pl game_id req d)) = Inr (Some r')
           \<and> Game_id r' = Game_id r
           \<and> (\<not> has_key (get_json req) ''title'' \<longrightarrow> Game_title r' = Game_title r)
           \<and> (\<not> has_key (get_json req) ''release_date'' \<longrightarrow>
                 Game_release_date r' = Game_release_date r)"
proof (cases "game_id \<noteq> [] \<and> truthy (get_json req) \<and> (\<exists>items. get_json req = JObj items)")
  case True
  then obtain items where body: "get_json req = JObj items" by blast
  let ?r' = "r\<lparr>Game_title := dict_get items ''title'' (Game_title r),
               Game_release_date := dict_get items ''release_date'' (Game_release_date r)\<rparr>"
  from True body found
  have "snd (edit_games id_eq pl game_id req d) = Game_update ?r' d"
    by (simp add: edit_games_def Let_def)
  moreover have "find_game id_eq game_id (Game_update ?r' d) = Inr (Some ?r')"
    by (rule find_game_after_update[OF found]) simp
  ultimately show ?thesis
    by (auto simp: body has_key_def dict_get_absent)
next
  case False
  with found have "snd (edit_games id_eq pl game_id req d) = d"
    by (cases "get_json req") (auto simp: edit_games_def Let_def abort_def)
  with found show ?thesis by auto
qed

section \<open>Pagination\<close>

text \<open>
  Claim C2. For every collection \<open>C\<close> and every page number \<open>p \<ge> 1\<close> (the \<^verbatim>\<open>page\<close> argument
  of the request, 1 when it is missing), \<^verbatim>\<open>paginate_results\<close> returns the Python slice
  \<open>C[(p-1)*N : p*N]\<close> of the formatted records, which for a page size \<open>N \<ge> 0\<close> is the
  contiguous run of at most \<open>N\<close> records from offset \<open>(p-1)*N\<close>; when that offset lies at
  or beyond the end of \<open>C\<close> the result is the empty list. The function is total: it
  returns a list in every case and has no error exit.
\<close>

theorem paginate_results_slice:
  assumes "1 \<le> p" and "0 \<le> N"
    and "p = (case args_page req of Some q \<Rightarrow> q | None \<Rightarrow> 1)"
  shows "paginate_results N req fmt C = py_slice (map fmt C) ((p - 1) * N) (p * N)
       \<and> paginate_results N req fmt C = take (nat N) (drop (nat ((p - 1) * N)) (map fmt C))
       \<and> (int (length C) \<le> (p - 1) * N \<longrightarrow> paginate_results N req fmt C = [])"
proof -
  have e: "(p - 1) * N + N = p * N" by (simp add: algebra_simps)
  have s: "0 \<le> (p - 1) * N" using assms by simp
  have "paginate_results N req fmt C = py_slice (map fmt C) ((p - 1) * N) ((p - 1) * N + N)"
    unfolding assms(3) by (simp add: paginate_results_def Let_def)
  then have 1: "paginate_results N req fmt C = py_slice (map fmt C) ((p - 1) * N) (p * N)"
    by (simp only: e)
  have 2: "py_slice (map fmt C) ((p - 1) * N) (p * N)
             = take (nat N) (drop (nat ((p - 1) * N)) (map fmt C))"
    using py_slice_nonneg[OF s assms(2), of "map fmt C"] by (simp only: e)
  show ?thesis using 1 2 s by auto
qed

theorem paginate_results_slice_witness:
  "paginate_results 2
     \<lparr>authorization = None, args_page = Some 2, get_json = JNull, view_args = []\<rparr>
     JInt [1, 2, 3] = [JInt 3]
 \<and> paginate_results 2
     \<lparr>authorization = None, args_page = Some 3, get_json = JNull, view_args = []\<rparr>
     JInt [1, 2, 3] = []
 \<and> paginate_results 2
     \<lparr>authorization = None, args_page = None, get_json = JNull, view_args = []\<rparr>
     JInt [1, 2, 3] = [JInt 1, JInt 2]"
  using
    paginate_results_slice[of 2 2
      "\<lparr>authorization = None, args_page = Some 2, get_json = JNull, view_args = []\<rparr>"
      JInt "[1, 2, 3]"]
    paginate_results_slice[of 3 2
      "\<lparr>authorization = None, args_page = Some 3, get_json = JNull, view_args = []\<rparr>"
      JInt "[1, 2, 3]"]
    paginate_results_slice[of 1 2
      "\<lparr>authorization = None, args_page = None, get_json = JNull, view_args = []\<rparr>"
      JInt "[1, 2, 3]"]
  by (simp add: py_slice_def)

section \<open>Partial update\<close>

text \<open>
  Claim C3. For every PATCH request on an existing Person or Game (the lookup by the path
  segment finds exactly one row) whose JSON body omits a field, the value stored for that
  field after the call, in the row found under the same id, equals the value stored before
  the call. This holds for every outcome of the request, a refused one included.
\<close>

theorem patch_keeps_omitted_fields:
  "(find_person id_eq person_id d = Inr (Some p) \<longrightarrow>
      (\<exists>p'. find_person id_eq person_id (snd (edit_persons id_eq pl person_id req d))
                = Inr (Some p')
           \<and> Person_id p' = Person_id p
           \<and> (\<not> has_key (get_json req) ''name'' \<longrightarrow> Person_name p' = Person_name p)
           \<and> (\<not> has_key (get_json req) ''age'' \<longrightarrow> Person_age p' = Person_age p)
           \<and> (\<not> has_key (get_json req) ''gender'' \<longrightarrow> Person_gender p' = Person_gender p)))
 \<and> (find_game id_eq game_id d = Inr (Some g) \<longrightarrow>
      (\<exists>g'. find_game id_eq game_id (snd (edit_games id_eq pl game_id req d)) = Inr (Some g')
           \<and> Game_id g' = Game_id g
           \<and> (\<not> has_key (get_json req) ''title'' \<longrightarrow> Game_title g' = Game_title g)
           \<and> (\<not> has_key (get_json req) ''release_date'' \<longrightarrow>
                 Game_release_date g' = Game_release_date g)))"
  using edit_persons_keeps_omitted[of id_eq person_id d p pl req]
    edit_games_keeps_omitted[of id_eq game_id d g pl req]
  by blast

theorem patch_keeps_omitted_fields_witness:
  "(\<exists>p'. find_person (\<lambda>i s. i = 1 \<and> s = ''1'') ''1''
            (snd (edit_persons (\<lambda>i s. i = 1 \<and> s = ''1'') \<lparr>permissions = Some [''edit:persons'']\<rparr>
                   ''1''
                   \<lparr>authorization = Some ''Bearer token'', args_page = None,
                    get_json = JObj [(''age'', JInt 30)], view_args = [''1'']\<rparr>
                   (db_init_records typed_columns (JStr ''2020-06-01'')))) = Inr (Some p')
        \<and> Person_name p' = JStr ''Matthew'' \<and> Person_gender p' = JStr ''Male'')
 \<and> (\<exists>g'. find_game (\<lambda>i s. i = 1 \<and> s = ''1'') ''1''
            (snd (edit_games (\<lambda>i s. i = 1 \<and> s = ''1'') \<lparr>permissions = Some [''edit:games'']\<rparr>
                   ''1''
                   \<lparr>authorization = Some ''Bearer token'', args_page = None,
                    get_json = JObj [(''release_date'', JStr ''2021-01-01'')],
                    view_args = [''1'']\<rparr>
                   (db_init_records typed_columns (JStr ''2020-06-01'')))) = Inr (Some g')
        \<and> Game_title g' = JStr ''Matthew first Game'')"
proof -
  let ?eq = "\<lambda>(i::int) s. i = 1 \<and> s = ''1''"
  let ?d = "db_init_records typed_columns (JStr ''2020-06-01'')"
  let ?p = "\<lparr>Person_id = 1, Person_name = JStr ''Matthew'', Person_gender = JStr ''Male'',
             Person_age = JInt 25\<rparr>"
  let ?g = "\<lparr>Game_id = 1, Game_title = JStr ''Matthew first Game'',
             Game_release_date = JStr ''2020-06-01''\<rparr>"
  have fp: "find_person ?eq ''1'' ?d = Inr (Some ?p)"
    by (simp add: find_person_def one_or_none_def db_init_records_rows)
  have fg: "find_game ?eq ''1'' ?d = Inr (Some ?g)"
    by (simp add: find_game_def one_or_none_def db_init_records_rows)
  show ?thesis
    using fp fg
      patch_keeps_omitted_fields[of ?eq "''1''" ?d ?p "\<lparr>permissions = Some [''edit:persons'']\<rparr>"
        "\<lparr>authorization = Some ''Bearer token'', args_page = None,
          get_json = JObj [(''age'', JInt 30)], view_args = [''1'']\<rparr>" "''1''" ?g]
      patch_keeps_omitted_fields[of ?eq "''1''" ?d ?p "\<lparr>permissions = Some [''edit:games'']\<rparr>"
        "\<lparr>authorization = Some ''Bearer token'', args_page = None,
          get_json = JObj [(''release_date'', JStr ''2021-01-01'')], view_args = [''1'']\<rparr>"
        "''1''" ?g]
    by (simp add: has_key_def, blast)
qed

section \<open>Listing\<close>

text \<open>
  Once the gate has passed, GET /games with an empty paginated slice fails with the HTTP
  exception 404 and the message "no games found in database."; the slice is empty when
  there is no game and also when the page lies beyond the games there are.
\<close>

lemma get_games_route_empty_slice:
  assumes "authorization_gate verify_decode_jwt (required_permission GET_games) req = Inr pl"
    and "view_args req = []"
    and "paginate_results N req Game_format (games d) = []"
  shows "dispatch_request N id_eq to_column verify_decode_jwt GET_games req d
           = (Inl (HTTPException 404 (message ''no games found in database.'')), d)"
  using assms games_routes_reach_handler(1)[OF assms(1,2), of N id_eq to_column d]
  by (simp add: get_games_def Let_def abort_def)

text \<open>
  Claim C5 says that every GET list request, on persons or on games, whose paginated slice
  is empty fails with NotFound (404) and the message "no persons found in database." or
  "no games found in database.". Evaluated on the seeded store with a valid token and the
  page 1125125125: GET /games gives that 404, and GET /persons ends in \<^verbatim>\<open>TypeError\<close>, because
  \<^verbatim>\<open>get_persons\<close> declares no parameter for the payload and is never entered.
\<close>

theorem get_persons_beyond_range_raises_TypeError:
  "dispatch_request 10 (\<lambda>i s. i = 1 \<and> s = ''1'') typed_columns
     (\<lambda>token. Inr \<lparr>permissions = Some [''read:persons'', ''read:games'']\<rparr>) GET_persons
     \<lparr>authorization = Some ''Bearer token'', args_page = Some 1125125125, get_json = JNull,
      view_args = []\<rparr>
     (db_init_records typed_columns (JStr ''2020-06-01''))
   = (Inl TypeError, db_init_records typed_columns (JStr ''2020-06-01''))
 \<and> dispatch_request 10 (\<lambda>i s. i = 1 \<and> s = ''1'') typed_columns
     (\<lambda>token. Inr \<lparr>permissions = Some [''read:persons'', ''read:games'']\<rparr>) GET_games
     \<lparr>authorization = Some ''Bearer token'', args_page = Some 1125125125, get_json = JNull,
      view_args = []\<rparr>
     (db_init_records typed_columns (JStr ''2020-06-01''))
   = (Inl (HTTPException 404 (message ''no games found in database.'')),
      db_init_records typed_columns (JStr ''2020-06-01''))
 \<and> ressource_not_found (message ''no games found in database.'') =
      (JObj [(''success'', JBool False), (''error'', JInt 404),
             (''message'', JStr ''no games found in database.'')], 404)"
  by (simp add: dispatch_request_def requires_auth_def authorization_gate_def
      get_token_auth_header_def check_permissions_def get_games_def paginate_results_def
      py_slice_def abort_def ressource_not_found_def get_error_message_def message_def
      db_init_records_rows Let_def)

section \<open>Creation\<close>

text \<open>
  Once the gate has passed, POST /games with a body that is missing or is a false JSON
  value fails with the HTTP exception 400 before any field is looked at.
\<close>

lemma post_games_route_falsy_body:
  assumes "authorization_gate verify_decode_jwt (required_permission POST_games) req = Inr pl"
    and "view_args req = []"
    and "\<not> truthy (get_json req)"
  shows "dispatch_request N id_eq to_column verify_decode_jwt POST_games req d
           = (Inl (HTTPException 400 (message ''request does not contain a valid JSON body.'')),
              d)"
  using assms games_routes_reach_handler(2)[OF assms(1,2), of N id_eq to_column d]
  by (simp add: insert_games_def Let_def abort_def)

text \<open>
  Claim C10 says that every authorized POST request, on persons or on games, whose body is
  missing or is a false JSON value fails with 400 and the message
  "request does not contain a valid JSON body.". Evaluated on the seeded store with a
  valid token and no body: POST /games gives that 400, and POST /persons ends in
  \<^verbatim>\<open>TypeError\<close>, because \<^verbatim>\<open>insert_persons\<close> declares no parameter for the payload and is never
  entered.
\<close>

theorem post_persons_without_body_raises_TypeError:
  "dispatch_request 10 (\<lambda>i s. i = 1 \<and> s = ''1'') typed_columns
     (\<lambda>token. Inr \<lparr>permissions = Some [''create:persons'', ''create:games'']\<rparr>) POST_persons
     \<lparr>authorization = Some ''Bearer token'', args_page = None, get_json = JNull,
      view_args = []\<rparr>
     (db_init_records typed_columns (JStr ''2020-06-01''))
   = (Inl TypeError, db_init_records typed_columns (JStr ''2020-06-01''))
 \<and> dispatch_request 10 (\<lambda>i s. i = 1 \<and> s = ''1'') typed_columns
     (\<lambda>token. Inr \<lparr>permissions = Some [''create:persons'', ''create:games'']\<rparr>) POST_games
     \<lparr>authorization = Some ''Bearer token'', args_page = None, get_json = JNull,
      view_args = []\<rparr>
     (db_init_records typed_columns (JStr ''2020-06-01''))
   = (Inl (HTTPException 400 (message ''request does not contain a valid JSON body.'')),
      db_init_records typed_columns (JStr ''2020-06-01''))
 \<and> bad_request (message ''request does not contain a valid JSON body.'') =
      (JObj [(''success'', JBool False), (''error'', JInt 400),
             (''message'', JStr ''request does not contain a valid JSON body.'')], 400)"
  by (simp add: dispatch_request_def requires_auth_def authorization_gate_def
      get_token_auth_header_def check_permissions_def insert_games_def abort_def
      bad_request_def get_error_message_def message_def Let_def)

text \<open>
  Claim C6, as stated: every POST request with a JSON body that misses a required field
  fails with 422 and a message naming the field. The empty object is a JSON body that
  misses every field, and an authorized POST /games with it is answered with 400: the
  test of the body comes first.
\<close>

theorem post_empty_object_counterexample:
  "dispatch_request 10 (\<lambda>i s. i = 1 \<and> s = ''1'') typed_columns
     (\<lambda>token. Inr \<lparr>permissions = Some [''create:games'']\<rparr>) POST_games
     \<lparr>authorization = Some ''Bearer token'', args_page = None, get_json = JObj [],
      view_args = []\<rparr>
     (db_init_records typed_columns (JStr ''2020-06-01''))
   = (Inl (HTTPException 400 (message ''request does not contain a valid JSON body.'')),
      db_init_records typed_columns (JStr ''2020-06-01''))
 \<and> \<not> has_key (JObj []) ''title''
 \<and> HTTPException 400 (message ''request does not contain a valid JSON body.'')
      \<noteq> HTTPException 422 (message ''no title provided.'')"
  by (simp add: dispatch_request_def requires_auth_def authorization_gate_def
      get_token_auth_header_def check_permissions_def insert_games_def abort_def has_key_def
      Let_def)

text \<open>
  Claim C6, amended. For every authorized POST /games request whose JSON body is an object
  that is not empty: if a required field is missing or empty (a missing field reads as
  \<^verbatim>\<open>None\<close>), the request fails with the HTTP exception 422 and a message that names the first
  such field in the order title, release_date, and the store is unchanged. The 422 error
  handler renders the exception with that message.
\<close>

theorem post_games_missing_field_unprocessable:
  assumes "authorization_gate verify_decode_jwt (required_permission POST_games) req = Inr pl"
    and "view_args req = []"
    and "get_json req = JObj items" and "items \<noteq> []"
  shows "(\<not> truthy (dict_get items ''title'' JNull) \<longrightarrow>
            dispatch_request N id_eq to_column verify_decode_jwt POST_games req d
              = (Inl (HTTPException 422 (message ''no title provided.'')), d))
       \<and> (truthy (dict_get items ''title'' JNull)
            \<and> \<not> truthy (dict_get items ''release_date'' JNull) \<longrightarrow>
            dispatch_request N id_eq to_column verify_decode_jwt POST_games req d
              = (Inl (HTTPException 422 (message ''no \"release_date\" provided.'')), d))
       \<and> (\<forall>key. \<not> has_key (JObj items) key \<longrightarrow> \<not> truthy (dict_get items key JNull))
       \<and> unprocessable (message ''no title provided.'') =
           (JObj [(''success'', JBool False), (''error'', JInt 422),
                  (''message'', JStr ''no title provided.'')], 422)
       \<and> unprocessable (message ''no \"release_date\" provided.'') =
           (JObj [(''success'', JBool False), (''error'', JInt 422),
                  (''message'', JStr ''no \"release_date\" provided.'')], 422)"
proof -
  have route: "dispatch_request N id_eq to_column verify_decode_jwt POST_games req d
                 = insert_games to_column pl req d"
    by (rule games_routes_reach_handler(2)[OF assms(1,2)]) simp
  show ?thesis
    unfolding route using assms(3,4)
    by (simp add: insert_games_def Let_def abort_def has_key_def dict_get_absent
        unprocessable_def get_error_message_def message_def)
qed

theorem post_games_missing_field_unprocessable_witness:
  "dispatch_request 10 (\<lambda>i s. i = 1 \<and> s = ''1'') typed_columns
     (\<lambda>token. Inr \<lparr>permissions = Some [''create:games'']\<rparr>) POST_games
     \<lparr>authorization = Some ''Bearer token'', args_page = None,
      get_json = JObj [(''release_date'', JStr ''2020-06-01'')], view_args = []\<rparr>
     (db_init_records typed_columns (JStr ''2020-06-01''))
   = (Inl (HTTPException 422 (message ''no title provided.'')),
      db_init_records typed_columns (JStr ''2020-06-01''))
 \<and> dispatch_request 10 (\<lambda>i s. i = 1 \<and> s = ''1'') typed_columns
     (\<lambda>token. Inr \<lparr>permissions = Some [''create:games'']\<rparr>) POST_games
     \<lparr>authorization = Some ''Bearer token'', args_page = None,
      get_json = JObj [(''title'', JStr ''Crisso Game'')], view_args = []\<rparr>
     (db_init_records typed_columns (JStr ''2020-06-01''))
   = (Inl (HTTPException 422 (message ''no \"release_date\" provided.'')),
      db_init_records typed_columns (JStr ''2020-06-01''))"
proof -
  let ?ok = "\<lambda>token :: string.
     (Inr \<lparr>permissions = Some [''create:games'']\<rparr> :: auth_failure + payload)"
  let ?no_title = "\<lparr>authorization = Some ''Bearer token'', args_page = None,
      get_json = JObj [(''release_date'', JStr ''2020-06-01'')], view_args = []\<rparr>"
  let ?no_date = "\<lparr>authorization = Some ''Bearer token'', args_page = None,
      get_json = JObj [(''title'', JStr ''Crisso Game'')], view_args = []\<rparr>"
  have 1: "authorization_gate ?ok (required_permission POST_games) ?no_title
             = Inr \<lparr>permissions = Some [''create:games'']\<rparr>"
    by (simp add: authorization_gate_def get_token_auth_header_def check_permissions_def)
  have 2: "authorization_gate ?ok (required_permission POST_games) ?no_date
             = Inr \<lparr>permissions = Some [''create:games'']\<rparr>"
    by (simp add: authorization_gate_def get_token_auth_header_def check_permissions_def)
  show ?thesis
    using
      post_games_missing_field_unprocessable[OF 1, of "[(''release_date'', JStr ''2020-06-01'')]"
        10 "\<lambda>i s. i = 1 \<and> s = ''1''" typed_columns
        "db_init_records typed_columns (JStr ''2020-06-01'')"]
      post_games_missing_field_unprocessable[OF 2, of "[(''title'', JStr ''Crisso Game'')]"
        10 "\<lambda>i s. i = 1 \<and> s = ''1''" typed_columns
        "db_init_records typed_columns (JStr ''2020-06-01'')"]
    by (simp add: dict_get_def)
qed

text \<open>
  Claim C7 says that every authorized POST /persons request whose body carries a name and
  an age and no gender creates a Person with gender "Other" and is answered with the
  success envelope and the new integer id. Evaluated on the seeded store with a valid
  token and the body \<^verbatim>\<open>{"name": "Crisso", "age": 25}\<close>: the request ends in \<^verbatim>\<open>TypeError\<close> and
  the store still holds one person, because \<^verbatim>\<open>insert_persons\<close> declares no parameter for the
  payload. Its body, which the route does not reach, would store the person under id 2
  with gender "Other".
\<close>

theorem post_persons_creates_nothing:
  "dispatch_request 10 (\<lambda>i s. i = 1 \<and> s = ''1'') typed_columns
     (\<lambda>token. Inr \<lparr>permissions = Some [''create:persons'']\<rparr>) POST_persons
     \<lparr>authorization = Some ''Bearer token'', args_page = None,
      get_json = JObj [(''name'', JStr ''Crisso''), (''age'', JInt 25)], view_args = []\<rparr>
     (db_init_records typed_columns (JStr ''2020-06-01''))
   = (Inl TypeError,
      \<lparr>persons = [\<lparr>Person_id = 1, Person_name = JStr ''Matthew'', Person_gender = JStr ''Male'',
                   Person_age = JInt 25\<rparr>],
       games = [\<lparr>Game_id = 1, Game_title = JStr ''Matthew first Game'',
                 Game_release_date = JStr ''2020-06-01''\<rparr>],
       persons_id_seq = 2, games_id_seq = 2\<rparr>)
 \<and> insert_persons typed_columns
     \<lparr>authorization = Some ''Bearer token'', args_page = None,
      get_json = JObj [(''name'', JStr ''Crisso''), (''age'', JInt 25)], view_args = []\<rparr>
     (db_init_records typed_columns (JStr ''2020-06-01''))
   = (Inr (JObj [(''success'', JBool True), (''created'', JInt 2)]),
      \<lparr>persons = [\<lparr>Person_id = 1, Person_name = JStr ''Matthew'', Person_gender = JStr ''Male'',
                   Person_age = JInt 25\<rparr>,
                  \<lparr>Person_id = 2, Person_name = JStr ''Crisso'', Person_gender = JStr ''Other'',
                   Person_age = JInt 25\<rparr>],
       games = [\<lparr>Game_id = 1, Game_title = JStr ''Matthew first Game'',
                 Game_release_date = JStr ''2020-06-01''\<rparr>],
       persons_id_seq = 3, games_id_seq = 2\<rparr>)"
  by (simp add: dispatch_request_def requires_auth_def authorization_gate_def
      get_token_auth_header_def check_permissions_def insert_persons_def Person_insert_def
      typed_columns_def dict_get_def db_init_records_rows Let_def)

section \<open>Deletion\<close>

text \<open>
  Claim C8. For every DELETE request on an existing Person or Game id (a path segment
  under which the lookup finds exactly one row), whatever the request carries as a body,
  the handler removes that row and answers with the success envelope whose \<^verbatim>\<open>deleted\<close>
  entry is the path segment itself, a string, and not the integer id of the row; a lookup
  under the same segment then finds nothing.
\<close>

theorem delete_echoes_id_string:
  "(person_id \<noteq> [] \<and> find_person id_eq person_id d = Inr (Some p) \<longrightarrow>
      delete_persons id_eq pl person_id req d =
        (Inr (JObj [(''success'', JBool True), (''deleted'', JStr person_id)]),
         Person_delete p d)
      \<and> find_person id_eq person_id (Person_delete p d) = Inr None)
 \<and> (game_id \<noteq> [] \<and> find_game id_eq game_id d = Inr (Some g) \<longrightarrow>
      delete_games id_eq pl game_id req d =
        (Inr (JObj [(''success'', JBool True), (''deleted'', JStr game_id)]),
         Game_delete g d)
      \<and> find_game id_eq game_id (Game_delete g d) = Inr None)"
  using find_person_after_delete[of id_eq person_id d p]
    find_game_after_delete[of id_eq game_id d g]
  by (simp add: delete_persons_def delete_games_def)

theorem delete_echoes_id_string_witness:
  "delete_persons (\<lambda>i s. i = 1 \<and> s = ''1'') \<lparr>permissions = Some [''delete:persons'']\<rparr> ''1''
     \<lparr>authorization = Some ''Bearer token'', args_page = None, get_json = JNull,
      view_args = [''1'']\<rparr>
     (db_init_records typed_columns (JStr ''2020-06-01''))
   = (Inr (JObj [(''success'', JBool True), (''deleted'', JStr ''1'')]),
      \<lparr>persons = [],
       games = [\<lparr>Game_id = 1, Game_title = JStr ''Matthew first Game'',
                 Game_release_date = JStr ''2020-06-01''\<rparr>],
       persons_id_seq = 2, games_id_seq = 2\<rparr>)
 \<and> delete_games (\<lambda>i s. i = 1 \<and> s = ''1'') \<lparr>permissions = Some [''delete:games'']\<rparr> ''1''
     \<lparr>authorization = Some ''Bearer token'', args_page = None, get_json = JNull,
      view_args = [''1'']\<rparr>
     (db_init_records typed_columns (JStr ''2020-06-01''))
   = (Inr (JObj [(''success'', JBool True), (''deleted'', JStr ''1'')]),
      \<lparr>persons = [\<lparr>Person_id = 1, Person_name = JStr ''Matthew'', Person_gender = JStr ''Male'',
                   Person_age = JInt 25\<rparr>],
       games = [], persons_id_seq = 2, games_id_seq = 2\<rparr>)"
proof -
  let ?eq = "\<lambda>(i::int) s. i = 1 \<and> s = ''1''"
  let ?d = "db_init_records typed_columns (JStr ''2020-06-01'')"
  let ?p = "\<lparr>Person_id = 1, Person_name = JStr ''Matthew'', Person_gender = JStr ''Male'',
             Person_age = JInt 25\<rparr>"
  let ?g = "\<lparr>Game_id = 1, Game_title = JStr ''Matthew first Game'',
             Game_release_date = JStr ''2020-06-01''\<rparr>"
  have fp: "find_person ?eq ''1'' ?d = Inr (Some ?p)"
    by (simp add: find_person_def one_or_none_def db_init_records_rows)
  have fg: "find_game ?eq ''1'' ?d = Inr (Some ?g)"
    by (simp add: find_game_def one_or_none_def db_init_records_rows)
  show ?thesis
    using fp fg
      delete_echoes_id_string[of "''1''" ?eq ?d ?p "\<lparr>permissions = Some [''delete:persons'']\<rparr>"
        "\<lparr>authorization = Some ''Bearer token'', args_page = None, get_json = JNull,
          view_args = [''1'']\<rparr>" "''1''" ?g]
      delete_echoes_id_string[of "''1''" ?eq ?d ?p "\<lparr>permissions = Some [''delete:games'']\<rparr>"
        "\<lparr>authorization = Some ''Bearer token'', args_page = None, get_json = JNull,
          view_args = [''1'']\<rparr>" "''1''" ?g]
    by (simp add: Person_delete_def Game_delete_def db_init_records_rows)
qed

section \<open>Authorization\<close>

text \<open>
  Claim C9. For every request that fails the authorization gate, on any of the eight
  routes and for any reason (header missing or malformed, token refused by the
  verification, permissions claim missing, permission missing), the answer is the
  \<^verbatim>\<open>AuthError\<close> of the gate and the store is unchanged; the answer is the same whatever
  function the decorator wraps, so no part of the handler has run.
\<close>

theorem failed_gate_skips_handler:
  assumes "authorization_gate verify_decode_jwt (required_permission ep) req = Inl e"
  shows "dispatch_request N id_eq to_column verify_decode_jwt ep req d = (Inl (AuthError e), d)
       \<and> (\<forall>f. requires_auth verify_decode_jwt (required_permission ep) f req d
                = (Inl (AuthError e), d))"
  using assms by (simp add: dispatch_request_def requires_auth_def)

theorem failed_gate_skips_handler_witness:
  "dispatch_request 10 (\<lambda>i s. i = 1 \<and> s = ''1'') typed_columns
     (\<lambda>token. Inr \<lparr>permissions = Some [''read:persons'', ''read:games'']\<rparr>) POST_games
     \<lparr>authorization = None, args_page = None,
      get_json = JObj [(''title'', JStr ''Crisso Game''), (''release_date'', JStr ''2020-06-01'')],
      view_args = []\<rparr>
     (db_init_records typed_columns (JStr ''2020-06-01''))
   = (Inl (AuthError AuthHeaderMissing), db_init_records typed_columns (JStr ''2020-06-01''))
 \<and> dispatch_request 10 (\<lambda>i s. i = 1 \<and> s = ''1'') typed_columns
     (\<lambda>token. Inr \<lparr>permissions = Some [''read:persons'', ''read:games'']\<rparr>) DELETE_games
     \<lparr>authorization = Some ''Bearer token'', args_page = None, get_json = JNull,
      view_args = [''1'']\<rparr>
     (db_init_records typed_columns (JStr ''2020-06-01''))
   = (Inl (AuthError PermissionNotFound), db_init_records typed_columns (JStr ''2020-06-01''))
 \<and> dispatch_request 10 (\<lambda>i s. i = 1 \<and> s = ''1'') typed_columns (\<lambda>token. Inl TokenExpired) DELETE_persons
     \<lparr>authorization = Some ''Bearer token'', args_page = None, get_json = JNull,
      view_args = [''1'']\<rparr>
     (db_init_records typed_columns (JStr ''2020-06-01''))
   = (Inl (AuthError TokenExpired), db_init_records typed_columns (JStr ''2020-06-01''))"
proof -
  let ?ok = "\<lambda>token :: string.
     (Inr \<lparr>permissions = Some [''read:persons'', ''read:games'']\<rparr> :: auth_failure + payload)"
  let ?expired = "\<lambda>token :: string. (Inl TokenExpired :: auth_failure + payload)"
  let ?post = "\<lparr>authorization = None, args_page = None,
      get_json = JObj [(''title'', JStr ''Crisso Game''), (''release_date'', JStr ''2020-06-01'')],
      view_args = []\<rparr>"
  let ?delete = "\<lparr>authorization = Some ''Bearer token'', args_page = None, get_json = JNull,
      view_args = [''1'']\<rparr>"
  have 1: "authorization_gate ?ok (required_permission POST_games) ?post = Inl AuthHeaderMissing"
    by (simp add: authorization_gate_def get_token_auth_header_def)
  have 2: "authorization_gate ?ok (required_permission DELETE_games) ?delete
             = Inl PermissionNotFound"
    by (simp add: authorization_gate_def get_token_auth_header_def check_permissions_def)
  have 3: "authorization_gate ?expired (required_permission DELETE_persons) ?delete
             = Inl TokenExpired"
    by (simp add: authorization_gate_def get_token_auth_header_def)
  show ?thesis
    using failed_gate_skips_handler[OF 1] failed_gate_skips_handler[OF 2]
      failed_gate_skips_handler[OF 3]
    by simp
qed

text \<open>
  Whenever the gate passes, the two routes on /persons whose handlers declare no parameter
  end in \<^verbatim>\<open>TypeError\<close> with the store unchanged: the payload has no parameter to go to.
\<close>

lemma persons_routes_without_payload:
  assumes "authorization_gate verify_decode_jwt (required_permission ep) req = Inr pl"
    and "ep = GET_persons \<or> ep = POST_persons"
  shows "dispatch_request N id_eq to_column verify_decode_jwt ep req d = (Inl TypeError, d)"
  using assms by (auto simp: dispatch_request_def requires_auth_def)

text \<open>
  Claim C1 says that on every route the handler runs with the payload once the gate has
  passed, and that GET /persons and POST /persons succeed under a valid token with the
  required permission. Evaluated on the seeded store with such a token: both requests end
  in \<^verbatim>\<open>TypeError\<close>, because \<^verbatim>\<open>get_persons\<close> and \<^verbatim>\<open>insert_persons\<close> declare no parameter for the
  payload, while GET /games, whose handler declares it, succeeds.
\<close>

theorem persons_routes_raise_TypeError:
  "dispatch_request 10 (\<lambda>i s. i = 1 \<and> s = ''1'') typed_columns
     (\<lambda>token. Inr \<lparr>permissions = Some [''read:persons'', ''read:games'']\<rparr>) GET_persons
     \<lparr>authorization = Some ''Bearer token'', args_page = Some 1, get_json = JNull,
      view_args = []\<rparr>
     (db_init_records typed_columns (JStr ''2020-06-01''))
   = (Inl TypeError, db_init_records typed_columns (JStr ''2020-06-01''))
 \<and> dispatch_request 10 (\<lambda>i s. i = 1 \<and> s = ''1'') typed_columns
     (\<lambda>token. Inr \<lparr>permissions = Some [''create:persons'']\<rparr>) POST_persons
     \<lparr>authorization = Some ''Bearer token'', args_page = None,
      get_json = JObj [(''name'', JStr ''Crisso''), (''age'', JInt 25)], view_args = []\<rparr>
     (db_init_records typed_columns (JStr ''2020-06-01''))
   = (Inl TypeError, db_init_records typed_columns (JStr ''2020-06-01''))
 \<and> dispatch_request 10 (\<lambda>i s. i = 1 \<and> s = ''1'') typed_columns
     (\<lambda>token. Inr \<lparr>permissions = Some [''read:persons'', ''read:games'']\<rparr>) GET_games
     \<lparr>authorization = Some ''Bearer token'', args_page = Some 1, get_json = JNull,
      view_args = []\<rparr>
     (db_init_records typed_columns (JStr ''2020-06-01''))
   = (Inr (JObj [(''success'', JBool True),
                 (''games'', JList [JObj [(''id'', JInt 1),
                                          (''title'', JStr ''Matthew first Game''),
                                          (''release_date'', JStr ''2020-06-01'')]])]),
      db_init_records typed_columns (JStr ''2020-06-01''))"
  by (simp add: dispatch_request_def requires_auth_def authorization_gate_def
      get_token_auth_header_def check_permissions_def get_games_def paginate_results_def
      py_slice_def Game_format_def db_init_records_rows Let_def)

section \<open>Names and titles\<close>

text \<open>
  Claim C4 says that no stored name or title is ever empty and that no PATCH request can
  set one to the empty string. Evaluated on the seeded store: PATCH /persons/1 with the
  body \<^verbatim>\<open>{"name": ""}\<close> succeeds and leaves person 1 with the empty string as its name.
  \<^verbatim>\<open>insert_persons\<close> refuses an empty name; \<^verbatim>\<open>edit_persons\<close> has no such test.
\<close>

theorem patch_stores_empty_name:
  "edit_persons (\<lambda>i s. i = 1 \<and> s = ''1'') \<lparr>permissions = Some [''edit:persons'']\<rparr> ''1''
     \<lparr>authorization = Some ''Bearer token'', args_page = None,
      get_json = JObj [(''name'', JStr '''')], view_args = [''1'']\<rparr>
     (db_init_records typed_columns (JStr ''2020-06-01''))
   = (Inr (JObj [(''success'', JBool True), (''updated'', JInt 1),
                 (''person'', JList [JObj [(''id'', JInt 1), (''name'', JStr ''''),
                                           (''gender'', JStr ''Male''), (''age'', JInt 25)]])]),
      \<lparr>persons = [\<lparr>Person_id = 1, Person_name = JStr '''', Person_gender = JStr ''Male'',
                   Person_age = JInt 25\<rparr>],
       games = [\<lparr>Game_id = 1, Game_title = JStr ''Matthew first Game'',
                 Game_release_date = JStr ''2020-06-01''\<rparr>],
       persons_id_seq = 2, games_id_seq = 2\<rparr>)
 \<and> insert_persons typed_columns
     \<lparr>authorization = Some ''Bearer token'', args_page = None,
      get_json = JObj [(''name'', JStr ''''), (''age'', JInt 25)], view_args = []\<rparr>
     (db_init_records typed_columns (JStr ''2020-06-01''))
   = (Inl (HTTPException 422 (message ''no name provided.'')),
      db_init_records typed_columns (JStr ''2020-06-01''))"
  by (simp add: edit_persons_def insert_persons_def abort_def find_person_def one_or_none_def
      dict_get_def Person_update_def Person_format_def db_init_records_rows Let_def)

end
